theory Spec2Isabelle
  imports Complex_Main
begin

section \<open>JavaScript strings\<close>

text \<open>
  A JavaScript string is modelled as a \<^typ>\<open>string\<close> holding its UTF-8 bytes. The
  case conversions below change the ASCII letters only; every other byte is left as it
  is. The two non-ASCII literals of \<^verbatim>\<open>static/app.js\<close> are written out as bytes.
\<close>

definition em_dash :: string where
  "em_dash = [CHR 0xE2, CHR 0x80, CHR 0x94]"

definition ellipsis :: string where
  "ellipsis = [CHR 0xE2, CHR 0x80, CHR 0xA6]"

definition upper_letters :: string where
  "upper_letters = ''ABCDEFGHIJKLMNOPQRSTUVWXYZ''"

definition lower_letters :: string where
  "lower_letters = ''abcdefghijklmnopqrstuvwxyz''"

definition lower_char :: "char \<Rightarrow> char" where
  "lower_char c = (case map_of (zip upper_letters lower_letters) c of Some d \<Rightarrow> d | None \<Rightarrow> c)"

definition upper_char :: "char \<Rightarrow> char" where
  "upper_char c = (case map_of (zip lower_letters upper_letters) c of Some d \<Rightarrow> d | None \<Rightarrow> c)"

definition toLowerCase :: "string \<Rightarrow> string" where
  "toLowerCase s = map lower_char s"

definition toUpperCase :: "string \<Rightarrow> string" where
  "toUpperCase s = map upper_char s"

text \<open>\<^verbatim>\<open>s.startsWith(p)\<close> and \<^verbatim>\<open>s.includes(p)\<close>.\<close>

definition startsWith :: "string \<Rightarrow> string \<Rightarrow> bool" where
  "startsWith s p = (take (length p) s = p)"

fun includes_str :: "string \<Rightarrow> string \<Rightarrow> bool" where
  "includes_str [] p = (p = [])"
| "includes_str (c # s) p = (startsWith (c # s) p \<or> includes_str s p)"

text \<open>\<^verbatim>\<open>s.split(c)\<close> for a one-character separator: the result is never empty.\<close>

fun split :: "char \<Rightarrow> string \<Rightarrow> string list" where
  "split c [] = [[]]"
| "split c (x # xs) =
     (if x = c then [] # split c xs
      else (case split c xs of [] \<Rightarrow> [[x]] | y # ys \<Rightarrow> (x # y) # ys))"

text \<open>\<^verbatim>\<open>xs.indexOf(x)\<close>, with \<open>None\<close> for the result \<open>-1\<close>.\<close>

fun indexOf :: "string list \<Rightarrow> string \<Rightarrow> nat option" where
  "indexOf [] x = None"
| "indexOf (y # ys) x =
     (if y = x then Some 0 else (case indexOf ys x of None \<Rightarrow> None | Some i \<Rightarrow> Some (Suc i)))"

text \<open>\<^verbatim>\<open>xs[i]\<close>: reading past the end of a JavaScript array gives \<^verbatim>\<open>undefined\<close>.\<close>

definition at_index :: "'a list \<Rightarrow> nat \<Rightarrow> 'a option" where
  "at_index xs i = (if i < length xs then Some (xs ! i) else None)"

text \<open>
  \<^verbatim>\<open>s.trim()\<close>, for the ASCII white space: tab, line feed, vertical tab, form feed,
  carriage return and space.
\<close>

definition white_space :: "char \<Rightarrow> bool" where
  "white_space c = (c \<in> set [CHR 0x09, CHR 0x0A, CHR 0x0B, CHR 0x0C, CHR 0x0D, CHR 0x20])"

definition trim :: "string \<Rightarrow> string" where
  "trim s = rev (dropWhile white_space (rev (dropWhile white_space s)))"

text \<open>
  The truthiness of an optional string: \<^verbatim>\<open>undefined\<close>, \<^verbatim>\<open>null\<close> and the empty
  string are falsy. \<open>or_else v d\<close> is \<^verbatim>\<open>v || d\<close>.
\<close>

definition truthy :: "string option \<Rightarrow> bool" where
  "truthy v = (case v of None \<Rightarrow> False | Some s \<Rightarrow> s \<noteq> [])"

definition or_else :: "string option \<Rightarrow> string \<Rightarrow> string" where
  "or_else v d = (case v of None \<Rightarrow> d | Some s \<Rightarrow> if s = [] then d else s)"

section \<open>JavaScript numbers\<close>

text \<open>
  A number of a JSON payload is modelled by its value, a \<^typ>\<open>real\<close>: comparisons,
  \<^verbatim>\<open>Math.max\<close> and \<^verbatim>\<open>Math.min\<close> are exact on doubles. \<^verbatim>\<open>NaN\<close> and the
  infinities have no JSON form and are left out.
\<close>

fun digits :: "nat \<Rightarrow> string" where
  "digits n =
     (if n < 10 then [''0123456789'' ! n]
      else digits (n div 10) @ [''0123456789'' ! (n mod 10)])"

declare digits.simps [simp del]

text \<open>The digits of a fraction \<open>0 \<le> r < 1\<close>, at most \<open>k\<close> of them.\<close>

fun frac_digits :: "nat \<Rightarrow> real \<Rightarrow> string" where
  "frac_digits 0 r = []"
| "frac_digits (Suc k) r =
     (if r = 0 then []
      else (''0123456789'' ! nat \<lfloor>10 * r\<rfloor>) # frac_digits k (frac (10 * r)))"

text \<open>
  The number of zeros that follow the point in the decimal form of \<open>0 < r < 1\<close>, at most
  \<open>k\<close> of them.
\<close>

fun lead_zeros :: "nat \<Rightarrow> real \<Rightarrow> nat" where
  "lead_zeros 0 r = 0"
| "lead_zeros (Suc k) r = (if 10 * r < 1 then Suc (lead_zeros k (10 * r)) else 0)"

definition strip_zeros :: "string \<Rightarrow> string" where
  "strip_zeros s = rev (dropWhile (\<lambda>c. c = CHR ''0'') (rev s))"

text \<open>
  The exponent notation: the first significant digit, a point and the other digits when
  there are any, the letter \<open>e\<close>, and the signed exponent.
\<close>

definition exp_form :: "string \<Rightarrow> string \<Rightarrow> string" where
  "exp_form s e =
     (case s of [] \<Rightarrow> []
      | c # cs \<Rightarrow> c # (if cs = [] then [] else ''.'' @ cs) @ ''e'' @ e)"

text \<open>
  \<^verbatim>\<open>String(x)\<close>, as string concatenation and template literals apply it to a number,
  after ECMAScript's Number::toString: from \<open>10\<^sup>-\<^sup>6\<close> up to \<open>10\<^sup>2\<^sup>1\<close> in magnitude the
  integer part and, when there is a fraction, a point and the digits of the fraction;
  from \<open>10\<^sup>2\<^sup>1\<close> on, and below \<open>10\<^sup>-\<^sup>6\<close>, the exponent notation. The model writes
  the decimal digits of the value. It agrees with ECMAScript on the numbers that
  have at most fifteen significant decimal digits and on the integers below
  \<open>2\<^sup>5\<^sup>3\<close>; for any other number ECMAScript writes the shortest digits that read
  back as the same double, which is not modelled, and no theorem below reads the model
  there.
\<close>

definition Number_toString :: "real \<Rightarrow> string" where
  "Number_toString x =
     (let a = \<bar>x\<bar>;
          whole = digits (nat \<lfloor>a\<rfloor>);
          body =
            (if a \<ge> 10 ^ 21 then
               exp_form (strip_zeros (whole @ frac_digits 20 (frac a)))
                 (''+'' @ digits (length whole - 1))
             else if 0 < a \<and> a < 1 / 10 ^ 6 then
               (let z = lead_zeros 400 a
                in exp_form (frac_digits 20 (a * 10 ^ z)) (''-'' @ digits (Suc z)))
             else whole @ (if frac a = 0 then [] else ''.'' @ frac_digits 20 (frac a)))
      in if x < 0 then ''-'' @ body else body)"

text \<open>
  \<^verbatim>\<open>x.toFixed(f)\<close> after ECMAScript: for \<open>x < 10\<^sup>2\<^sup>1\<close> the integer \<open>n\<close> for which
  \<open>n / 10\<^sup>f - x\<close> is closest to zero (the larger one of two), written with \<open>f\<close>
  digits after the point, padded with zeros in front where \<open>n\<close> has too few digits.
\<close>

definition toFixed_abs :: "nat \<Rightarrow> real \<Rightarrow> string" where
  "toFixed_abs f x =
     (if x \<ge> 10 ^ 21 then Number_toString x
      else let n = nat \<lfloor>x * 10 ^ f + 1 / 2\<rfloor>;
               m = digits n
           in if f = 0 then m
              else let m' = replicate (Suc f - length m) CHR ''0'' @ m;
                       k = length m'
                   in take (k - f) m' @ ''.'' @ drop (k - f) m')"

definition toFixed :: "nat \<Rightarrow> real \<Rightarrow> string" where
  "toFixed f x = (if x < 0 then ''-'' @ toFixed_abs f (- x) else toFixed_abs f x)"

section \<open>The page state\<close>

text \<open>The elements that are shown and hidden (the class \<^verbatim>\<open>d-none\<close>).\<close>

datatype region =
    Preview | PreviewSkel | ProgressSkel | ProgressBlock | ResultBlock | CancelBlock
  | ErrBox | NewBtnTop | CancelBtn | ProgADSkel | ProgADWrap

text \<open>The elements whose \<^verbatim>\<open>textContent\<close> is written.\<close>

datatype label =
    TitleEl | ChannelName | ChannelSubs | Bar | StatusBadge | DownloadedEl | TotalEl
  | SpeedEl | EtaEl | StartedAt | ExpiresAt | FilenameEl | ResultExpiresAt | ErrmsgEl

text \<open>
  What a timer runs: \<^verbatim>\<open>poll\<close>, or the arrow function that hides the preview skeleton
  and shows the preview.
\<close>

datatype callback = Poll | Reveal

datatype timer = Interval nat callback | Timeout nat callback

text \<open>
  The source of the channel avatar image: a URL of the payload, or
  \<^verbatim>\<open>svgAvatar(name)\<close>, the generated image, kept as the name it is generated from.
\<close>

datatype image_src = Remote string | Generated string

text \<open>
  The three globals \<^verbatim>\<open>currentJobId\<close>, \<^verbatim>\<open>currentCleanUrl\<close> and \<^verbatim>\<open>pollTimer\<close>,
  the browser's table of running timers (\<^verbatim>\<open>setInterval\<close> and \<^verbatim>\<open>setTimeout\<close>
  draw their handles from one pool), the four fields of \<^verbatim>\<open>loader\<close>, and the part of
  the document that the script writes. A toast is its type and its message.
\<close>

record page =
  currentJobId :: "string option"
  currentCleanUrl :: "string option"
  pollTimer :: "nat option"
  timers :: "nat \<rightharpoonup> timer"
  nextTimer :: nat
  loader_need :: nat
  loader_done :: nat
  loader_armed :: bool
  loader_timeoutId :: "nat option"
  hidden :: "region \<Rightarrow> bool"
  textContent :: "label \<Rightarrow> string"
  barWidth :: string
  barSkel :: bool
  thumbSrc :: "string option"
  avatarSrc :: "image_src option"
  downloadHref :: "string option"
  startDisabled :: bool
  urlValue :: string
  toasts :: "(string \<times> string) list"

definition showToast :: "string \<Rightarrow> string \<Rightarrow> page \<Rightarrow> page" where
  "showToast type message st = st\<lparr>toasts := toasts st @ [(type, message)]\<rparr>"

definition show_el :: "region \<Rightarrow> page \<Rightarrow> page" where
  "show_el el st = st\<lparr>hidden := (hidden st)(el := False)\<rparr>"

definition hide :: "region \<Rightarrow> page \<Rightarrow> page" where
  "hide el st = st\<lparr>hidden := (hidden st)(el := True)\<rparr>"

definition set_text :: "label \<Rightarrow> string \<Rightarrow> page \<Rightarrow> page" where
  "set_text l s st = st\<lparr>textContent := (textContent st)(l := s)\<rparr>"

definition startBarSkeleton :: "page \<Rightarrow> page" where
  "startBarSkeleton st = st\<lparr>barSkel := True\<rparr>"

definition stopBarSkeleton :: "page \<Rightarrow> page" where
  "stopBarSkeleton st = st\<lparr>barSkel := False\<rparr>"

subsection \<open>Timers\<close>

definition setInterval :: "callback \<Rightarrow> nat \<Rightarrow> page \<Rightarrow> nat \<times> page" where
  "setInterval cb ms st =
     (nextTimer st,
      st\<lparr>timers := (timers st)(nextTimer st \<mapsto> Interval ms cb), nextTimer := Suc (nextTimer st)\<rparr>)"

definition setTimeout :: "callback \<Rightarrow> nat \<Rightarrow> page \<Rightarrow> nat \<times> page" where
  "setTimeout cb ms st =
     (nextTimer st,
      st\<lparr>timers := (timers st)(nextTimer st \<mapsto> Timeout ms cb), nextTimer := Suc (nextTimer st)\<rparr>)"

text \<open>
  \<^verbatim>\<open>clearInterval(h)\<close> and \<^verbatim>\<open>clearTimeout(h)\<close>: nothing happens for \<^verbatim>\<open>null\<close> or
  for a handle that is not running.
\<close>

definition clearTimer :: "nat option \<Rightarrow> page \<Rightarrow> page" where
  "clearTimer h st = (case h of None \<Rightarrow> st | Some t \<Rightarrow> st\<lparr>timers := (timers st)(t := None)\<rparr>)"

definition clearInterval :: "nat option \<Rightarrow> page \<Rightarrow> page" where
  "clearInterval = clearTimer"

definition clearTimeout :: "nat option \<Rightarrow> page \<Rightarrow> page" where
  "clearTimeout = clearTimer"

section \<open>The progress mapper\<close>

text \<open>The payload of \<^verbatim>\<open>GET /api/progress/<job id>\<close>; a missing field is \<open>None\<close>.\<close>

record progress =
  ok :: bool
  status :: "string option"
  progress :: "real option"
  downloaded :: "string option"
  total :: "string option"
  speed :: "string option"
  eta :: "real option"
  started_at_ist :: "string option"
  expires_at_ist :: "string option"
  filename :: "string option"
  download_url :: "string option"
  error :: "string option"

text \<open>\<^verbatim>\<open>Number(d.progress || 0)\<close>: a missing value and \<open>0\<close> both give \<open>0\<close>.\<close>

definition raw_pct :: "progress \<Rightarrow> real" where
  "raw_pct d = (case progress d of None \<Rightarrow> 0 | Some p \<Rightarrow> p)"

text \<open>The local \<^verbatim>\<open>pct\<close> of \<^verbatim>\<open>updateProgress\<close>, as lines 333 to 335 leave it.\<close>

definition pct :: "progress \<Rightarrow> real" where
  "pct d =
     (let p = raw_pct d;
          p = (if or_else (status d) [] = ''processing'' \<and> p < 99 then 99 else p)
      in max 0 (min 100 p))"

definition displayStatus :: "string option \<Rightarrow> string" where
  "displayStatus s =
     (if \<not> truthy s then em_dash
      else let s = toLowerCase (the s) in if s = ''processing'' then ''downloading'' else s)"

definition eta_text :: "real option \<Rightarrow> string" where
  "eta_text e = (case e of None \<Rightarrow> ''-'' | Some x \<Rightarrow> Number_toString x @ ''s'')"

definition updateProgress :: "progress \<Rightarrow> page \<Rightarrow> page" where
  "updateProgress d st =
     (let st = st\<lparr>barWidth := Number_toString (pct d) @ ''%''\<rparr>;
          st = set_text Bar (toFixed 0 (pct d) @ ''%'') st;
          st = set_text StatusBadge (toUpperCase (displayStatus (status d))) st;
          st = set_text DownloadedEl (or_else (downloaded d) ''0 B'') st;
          st = set_text TotalEl (or_else (total d) ''?'') st;
          st = set_text SpeedEl (or_else (speed d) ''-'') st
      in set_text EtaEl (eta_text (eta d)) st)"

subsection \<open>The subscriber count\<close>

definition units :: "(string \<times> real) list" where
  "units = [(''B'', 1), (''K'', 10 ^ 3), (''M'', 10 ^ 6), (''B'', 10 ^ 9)]"

text \<open>\<^verbatim>\<open>s.replace(/\.0$/, '')\<close>.\<close>

definition strip_point_zero :: "string \<Rightarrow> string" where
  "strip_point_zero s =
     (if 2 \<le> length s \<and> drop (length s - 2) s = ''.0'' then take (length s - 2) s else s)"

text \<open>
  The loop of \<^verbatim>\<open>formatSubs\<close> with the indices below \<open>k\<close> still to visit, from
  \<open>k - 1\<close> down to 0, and the template literal after the loop. The quotient
  \<^verbatim>\<open>n/units[i][1]\<close> is taken exactly; a quotient by 1 is exact on doubles as well.
\<close>

fun formatSubs_from :: "nat \<Rightarrow> real \<Rightarrow> string" where
  "formatSubs_from 0 n = Number_toString n @ '' subscribers''"
| "formatSubs_from (Suc i) n =
     (if n \<ge> snd (units ! i)
      then strip_point_zero (toFixed (if n \<ge> 100000 then 0 else 1) (n / snd (units ! i)))
             @ fst (units ! i) @ '' subscribers''
      else formatSubs_from i n)"

definition formatSubs :: "real \<Rightarrow> string" where
  "formatSubs n = formatSubs_from (length units) n"

section \<open>The URL normalizer\<close>

subsection \<open>The URL parser of the platform\<close>

text \<open>
  \<^verbatim>\<open>new URL(raw)\<close> is the browser's parser, not code of this repository. The model
  keeps the three parts that \<^verbatim>\<open>cleanYouTubeUrl\<close> reads, for an input of ASCII
  characters: the host name, the path and the query (without its question mark).
  \<open>None\<close> is the exception of the constructor. Modelled: the white space stripped from
  the input, the scheme and its syntax, the slashes and backslashes that a special
  scheme accepts before the authority, the credentials and the port cut from the
  authority, the empty host and the forbidden host characters, the lower case of the
  host, the default path \<open>/\<close>, the backslash read as a slash, and the fragment cut off.
  Not modelled: percent-escapes and non-ASCII names in the host, hosts that are IP
  addresses, the removal of dot segments and the percent-encoding of the path.
\<close>

record URL =
  hostname :: string
  pathname :: string
  search :: string

definition back_slash :: char where
  "back_slash = CHR 0x5C"

definition c0_or_space :: "char \<Rightarrow> bool" where
  "c0_or_space c = (of_char c \<le> (32 :: nat))"

definition tab_or_newline :: "char \<Rightarrow> bool" where
  "tab_or_newline c = (c \<in> set [CHR 0x09, CHR 0x0A, CHR 0x0D])"

definition alpha :: "char \<Rightarrow> bool" where
  "alpha c = (c \<in> set (lower_letters @ upper_letters))"

definition digit :: "char \<Rightarrow> bool" where
  "digit c = (c \<in> set ''0123456789'')"

definition scheme_char :: "char \<Rightarrow> bool" where
  "scheme_char c = (alpha c \<or> digit c \<or> c \<in> set ''+-.'')"

definition special_schemes :: "string list" where
  "special_schemes = [''http'', ''https'', ''ws'', ''wss'', ''ftp'']"

definition forbidden_host_char :: "char \<Rightarrow> bool" where
  "forbidden_host_char c = (c0_or_space c \<or> c \<in> set (''<>[]^|%'' @ [CHR 0x7F]))"

definition digit_val :: "char \<Rightarrow> nat" where
  "digit_val c = length (takeWhile (\<lambda>d. d \<noteq> c) ''0123456789'')"

definition port_ok :: "string \<Rightarrow> bool" where
  "port_ok p = (list_all digit p \<and> foldl (\<lambda>n c. 10 * n + digit_val c) 0 p \<le> 65535)"

text \<open>The host and the port of an authority: what follows its last \<open>@\<close>.\<close>

definition host_port :: "string \<Rightarrow> string" where
  "host_port authority = rev (takeWhile (\<lambda>c. c \<noteq> CHR ''@'') (rev authority))"

text \<open>The path and the query of what follows the authority.\<close>

definition path_of :: "string \<Rightarrow> string" where
  "path_of s = takeWhile (\<lambda>c. c \<noteq> CHR ''?'' \<and> c \<noteq> CHR ''#'') s"

definition query_of :: "string \<Rightarrow> string" where
  "query_of s =
     drop 1 (dropWhile (\<lambda>c. c \<noteq> CHR ''?'') (takeWhile (\<lambda>c. c \<noteq> CHR ''#'') s))"

definition parse_special :: "string \<Rightarrow> URL option" where
  "parse_special rest =
     (let r = dropWhile (\<lambda>c. c = CHR ''/'' \<or> c = back_slash) rest;
          authority = takeWhile (\<lambda>c. c \<noteq> CHR ''/'' \<and> c \<noteq> back_slash \<and> c \<noteq> CHR ''?'' \<and> c \<noteq> CHR ''#'') r;
          after = drop (length authority) r;
          host = takeWhile (\<lambda>c. c \<noteq> CHR '':'') (host_port authority);
          port = drop (Suc (length host)) (host_port authority);
          path = map (\<lambda>c. if c = back_slash then CHR ''/'' else c) (path_of after)
      in if host = [] \<or> list_ex forbidden_host_char host \<or> \<not> port_ok port then None
         else Some \<lparr>hostname = toLowerCase host,
                    pathname = (if path = [] then ''/'' else path),
                    search = query_of after\<rparr>)"

definition parse_other :: "string \<Rightarrow> URL option" where
  "parse_other rest =
     (if startsWith rest ''//''
      then let r = drop 2 rest;
               authority = takeWhile (\<lambda>c. c \<noteq> CHR ''/'' \<and> c \<noteq> CHR ''?'' \<and> c \<noteq> CHR ''#'') r;
               after = drop (length authority) r;
               host = takeWhile (\<lambda>c. c \<noteq> CHR '':'') (host_port authority);
               port = drop (Suc (length host)) (host_port authority)
           in if list_ex forbidden_host_char host \<or> \<not> port_ok port then None
              else Some \<lparr>hostname = host, pathname = path_of after, search = query_of after\<rparr>
      else Some \<lparr>hostname = [], pathname = path_of rest, search = query_of rest\<rparr>)"

definition parse_URL :: "string \<Rightarrow> URL option" where
  "parse_URL raw =
     (let input = filter (\<lambda>c. \<not> tab_or_newline c)
                    (rev (dropWhile c0_or_space (rev (dropWhile c0_or_space raw))));
          scheme = takeWhile (\<lambda>c. c \<noteq> CHR '':'') input;
          rest = drop (Suc (length scheme)) input
      in if length scheme = length input then None
         else (case scheme of
                 [] \<Rightarrow> None
               | c # cs \<Rightarrow>
                   if \<not> alpha c \<or> \<not> list_all scheme_char cs then None
                   else if toLowerCase scheme \<in> set special_schemes then parse_special rest
                   else parse_other rest))"

text \<open>
  \<^verbatim>\<open>u.searchParams.get(name)\<close>: the query is cut at every \<open>&\<close>, each non-empty piece
  at its first \<open>=\<close>; in both halves a \<open>+\<close> is a space and \<open>%XY\<close> is the byte with the
  hexadecimal digits \<open>XY\<close>. The value of the first pair with the name is returned.
\<close>

definition hex_val :: "char \<Rightarrow> nat option" where
  "hex_val c =
     map_of (zip ''0123456789abcdefABCDEF''
       [0, 1, 2, 3, 4, 5, 6, 7, 8, 9, 10, 11, 12, 13, 14, 15, 10, 11, 12, 13, 14, 15]) c"

fun percent_decode :: "string \<Rightarrow> string" where
  "percent_decode (c # h # l # s) =
     (case (c = CHR ''%'', hex_val h, hex_val l) of
        (True, Some a, Some b) \<Rightarrow> char_of (16 * a + b) # percent_decode s
      | _ \<Rightarrow> c # percent_decode (h # l # s))"
| "percent_decode s = s"

definition form_decode :: "string \<Rightarrow> string" where
  "form_decode s = percent_decode (map (\<lambda>c. if c = CHR ''+'' then CHR '' '' else c) s)"

definition parse_pair :: "string \<Rightarrow> string \<times> string" where
  "parse_pair s =
     (let name = takeWhile (\<lambda>c. c \<noteq> CHR ''='') s
      in (form_decode name, form_decode (drop (Suc (length name)) s)))"

definition searchParams :: "string \<Rightarrow> (string \<times> string) list" where
  "searchParams q = map parse_pair (filter (\<lambda>s. s \<noteq> []) (split CHR ''&'' q))"

definition searchParams_get :: "string \<Rightarrow> string \<Rightarrow> string option" where
  "searchParams_get q name = map_of (searchParams q) name"

subsection \<open>cleanYouTubeUrl\<close>

datatype kind = Video | Short

definition allowed :: "string list" where
  "allowed = [''youtube.com'', ''www.youtube.com'', ''m.youtube.com'', ''youtu.be'',
              ''music.youtube.com'']"

text \<open>The two branches that read the parameter \<^verbatim>\<open>v\<close> are the same code.\<close>

definition watch_result :: "URL \<Rightarrow> string + string \<times> kind" where
  "watch_result u =
     (let v = searchParams_get (search u) ''v''
      in if \<not> truthy v then Inl ''Missing video id.''
         else Inr (''https://www.youtube.com/watch?v='' @ the v, Video))"

text \<open>
  The result \<^verbatim>\<open>{ok:false, error}\<close> is \<open>Inl error\<close>, the result
  \<^verbatim>\<open>{ok:true, url, kind}\<close> is \<open>Inr (url, kind)\<close>.
\<close>

definition cleanYouTubeUrl :: "string \<Rightarrow> string + string \<times> kind" where
  "cleanYouTubeUrl raw =
     (case parse_URL raw of
        None \<Rightarrow> Inl ''Invalid URL.''
      | Some u \<Rightarrow>
          let host = toLowerCase (hostname u)
          in if host \<notin> set allowed then Inl ''Only YouTube URLs are supported.''
             else if host = ''youtu.be'' then
               (let id = at_index (split CHR ''/'' (dropWhile (\<lambda>c. c = CHR ''/'') (pathname u))) 0
                in if \<not> truthy id then Inl ''Invalid youtu.be URL.''
                   else Inr (''https://www.youtube.com/watch?v='' @ the id, Video))
             else
               let path = (if pathname u = [] then ''/'' else pathname u)
               in if startsWith path ''/watch'' then watch_result u
                  else if includes_str path ''/shorts/'' then
                    (let parts = filter (\<lambda>s. s \<noteq> []) (split CHR ''/'' path)
                     in case indexOf parts ''shorts'' of
                          None \<Rightarrow> Inl ''Invalid shorts URL.''
                        | Some idx \<Rightarrow>
                            if \<not> truthy (at_index parts (idx + 1)) then Inl ''Invalid shorts URL.''
                            else Inr (''https://www.youtube.com/shorts/'' @ the (at_index parts (idx + 1)),
                                      Short))
                  else if host = ''music.youtube.com'' \<and> startsWith path ''/watch''
                    then watch_result u
                  else Inl ''Only direct YouTube video or shorts URLs are supported.'')"

subsection \<open>Video ids\<close>

text \<open>
  The characters of a YouTube video id: the letters, the digits, the hyphen and the
  underscore.
\<close>

definition id_char :: "char \<Rightarrow> bool" where
  "id_char c = (alpha c \<or> digit c \<or> c \<in> set ''-_'')"

section \<open>The preview loader\<close>

text \<open>The body of the three arrow functions that reveal the preview.\<close>

definition reveal :: "page \<Rightarrow> page" where
  "reveal st = show_el Preview (hide PreviewSkel st)"

definition loader_reset :: "page \<Rightarrow> page" where
  "loader_reset st =
     clearTimeout (loader_timeoutId st)
       (st\<lparr>loader_need := 0, loader_done := 0, loader_armed := False\<rparr>)"

definition loader_add :: "page \<Rightarrow> page" where
  "loader_add st = st\<lparr>loader_need := Suc (loader_need st)\<rparr>"

definition loader_mark :: "page \<Rightarrow> page" where
  "loader_mark st =
     (let st = st\<lparr>loader_done := Suc (loader_done st)\<rparr>
      in if loader_armed st \<and> loader_done st \<ge> loader_need st
         then snd (setTimeout Reveal 60 st) else st)"

definition loader_arm :: "page \<Rightarrow> page" where
  "loader_arm st =
     (let st = st\<lparr>loader_armed := True\<rparr>;
          st = (if loader_need st = 0 then reveal st else st);
          (t, st) = setTimeout Reveal 1000 st
      in st\<lparr>loader_timeoutId := Some t\<rparr>)"

section \<open>The job controller\<close>

text \<open>
  An asynchronous handler runs up to its \<^verbatim>\<open>await\<close>, where it leaves the request it
  has sent, and is resumed with the outcome of the request: other handlers run in
  between. \<open>Failed message\<close> is a rejected \<^verbatim>\<open>fetch\<close> or a body that is not JSON, with
  the message of the exception.
\<close>

datatype request =
    POST_probe "string option"
  | POST_start "string option"
  | GET_progress string
  | POST_cancel string

datatype 'a outcome = Failed string | Reply 'a

record meta =
  title :: "string option"
  thumbnail :: "string option"
  uploader :: "string option"
  channel_avatar :: "string option"
  subscribers :: "real option"

record probe_reply =
  probe_ok :: bool
  probe_meta :: "meta option"
  probe_error :: "string option"

record start_reply =
  start_ok :: bool
  job_id :: "string option"
  start_error :: "string option"

record cancel_reply =
  cancel_ok :: bool
  message :: "string option"

definition resetUI :: "page \<Rightarrow> page" where
  "resetUI st =
     (let st = fold hide [Preview, PreviewSkel, ProgressSkel, ProgressBlock, ResultBlock,
                          CancelBlock, ErrBox] st;
          st = set_text TitleEl [] st;
          st = set_text ChannelName [] st;
          st = set_text ChannelSubs [] st;
          st = st\<lparr>thumbSrc := None, avatarSrc := None\<rparr>;
          st = st\<lparr>barWidth := ''0%''\<rparr>;
          st = set_text Bar ''0%'' st;
          st = set_text DownloadedEl ''0 B'' st;
          st = set_text TotalEl ''?'' st;
          st = set_text SpeedEl ''-'' st;
          st = set_text EtaEl ''-'' st;
          st = set_text StartedAt em_dash st;
          st = set_text ExpiresAt em_dash st;
          st = hide NewBtnTop st;
          st = show_el CancelBtn st;
          st = show_el ProgADSkel st;
          st = hide ProgADWrap st;
          st = set_text ExpiresAt em_dash st;
          st = stopBarSkeleton st
      in st\<lparr>currentJobId := None\<rparr>)"

definition clearForNew :: "page \<Rightarrow> page" where
  "clearForNew st = (resetUI st)\<lparr>urlValue := []\<rparr>"

subsection \<open>Cancel\<close>

definition cancel_click :: "page \<Rightarrow> page \<times> request option" where
  "cancel_click st =
     (if \<not> truthy (currentJobId st) then (st, None)
      else (st, Some (POST_cancel (the (currentJobId st)))))"

definition cancel_settled :: "cancel_reply outcome \<Rightarrow> page \<Rightarrow> page" where
  "cancel_settled r st =
     (case r of
        Failed e \<Rightarrow> showToast ''error'' ''Failed to cancel.'' st
      | Reply c \<Rightarrow>
          if cancel_ok c then showToast ''info'' (''Cancelling'' @ ellipsis) st
          else showToast ''error'' (or_else (message c) ''Failed to cancel.'') st)"

subsection \<open>Polling\<close>

definition poll :: "page \<Rightarrow> page \<times> request option" where
  "poll st =
     (if \<not> truthy (currentJobId st) then (st, None)
      else (st, Some (GET_progress (the (currentJobId st)))))"

text \<open>The \<^verbatim>\<open>catch\<close> block of \<^verbatim>\<open>poll\<close>.\<close>

definition poll_failed :: "string \<Rightarrow> page \<Rightarrow> page" where
  "poll_failed msg st =
     show_el NewBtnTop (hide CancelBtn (showToast ''error'' msg (clearInterval (pollTimer st) st)))"

text \<open>
  The \<^verbatim>\<open>try\<close> block of \<^verbatim>\<open>poll\<close> after an answer with \<^verbatim>\<open>ok\<close>, in the three
  parts it runs one after the other: the chips (lines 288 to 298), \<^verbatim>\<open>updateProgress\<close>,
  and the chain of comparisons of the status (lines 302 to 324).
\<close>

definition poll_chips :: "progress \<Rightarrow> page \<Rightarrow> page" where
  "poll_chips data st =
     (let st = (if truthy (started_at_ist data)
                then set_text StartedAt (''Started: '' @ the (started_at_ist data)) st
                else st);
          st = (if truthy (status data) \<and> toLowerCase (the (status data)) \<noteq> ''queued''
                then stopBarSkeleton st else st)
      in if truthy (expires_at_ist data)
            \<and> (status data = Some ''downloading'' \<or> status data = Some ''processing''
                 \<or> status data = Some ''finished'')
         then show_el ProgADWrap
                (hide ProgADSkel (set_text ExpiresAt (the (expires_at_ist data)) st))
         else st)"

definition poll_status :: "progress \<Rightarrow> page \<Rightarrow> page" where
  "poll_status data st =
     (if status data = Some ''finished'' then
        (let st = clearInterval (pollTimer st) st;
             st = show_el NewBtnTop (hide CancelBtn st);
             st = set_text FilenameEl (or_else (filename data) ''(unknown)'') st;
             st = (if truthy (download_url data)
                   then st\<lparr>downloadHref := download_url data\<rparr> else st);
             st = set_text ResultExpiresAt (or_else (expires_at_ist data) em_dash) st
         in show_el ResultBlock st)
      else if status data = Some ''expired'' then
        (let st = clearInterval (pollTimer st) st;
             st = showToast ''error'' ''This file has expired and was auto-deleted.'' st
         in show_el NewBtnTop (hide CancelBtn st))
      else if status data = Some ''cancelled'' then
        (let st = clearInterval (pollTimer st) st;
             st = showToast ''info'' ''Download cancelled.'' st;
             st = hide ResultBlock (hide ProgressBlock st)
         in show_el CancelBlock st)
      else if status data = Some ''error'' then
        (let st = clearInterval (pollTimer st) st;
             st = showToast ''error'' (or_else (error data) ''Unknown error'') st;
             st = show_el ErrBox st;
             st = set_text ErrmsgEl (or_else (error data) ''Unknown error'') st
         in show_el NewBtnTop (hide CancelBtn st))
      else st)"

definition poll_settled :: "progress outcome \<Rightarrow> page \<Rightarrow> page" where
  "poll_settled r st =
     (case r of
        Failed msg \<Rightarrow> poll_failed msg st
      | Reply data \<Rightarrow>
          if \<not> ok data then poll_failed (or_else (error data) ''Progress error'') st
          else poll_status data (updateProgress data (poll_chips data st)))"

subsection \<open>Retry\<close>

definition retry_click :: "page \<Rightarrow> page \<times> request option" where
  "retry_click st =
     (if \<not> truthy (currentCleanUrl st) then (showToast ''error'' ''No URL to retry.'' st, None)
      else (show_el ProgressSkel (hide CancelBlock st), Some (POST_start (currentCleanUrl st))))"

definition retry_failed :: "string \<Rightarrow> page \<Rightarrow> page" where
  "retry_failed msg st = showToast ''error'' msg (hide ProgressSkel st)"

definition retry_settled :: "start_reply outcome \<Rightarrow> page \<Rightarrow> page" where
  "retry_settled r st =
     (case r of
        Failed msg \<Rightarrow> retry_failed msg st
      | Reply start \<Rightarrow>
          if \<not> start_ok start
          then retry_failed (or_else (start_error start) ''Failed to restart download'') st
          else
            let st = st\<lparr>currentJobId := job_id start\<rparr>;
                st = show_el ProgressBlock (hide ProgressSkel st);
                st = startBarSkeleton st;
                st = hide NewBtnTop (show_el CancelBtn st);
                (t, st) = setInterval Poll 900 st;
                st = st\<lparr>pollTimer := Some t\<rparr>
            in showToast ''info'' ''Retry started.'' st)"

subsection \<open>Submit\<close>

definition submit :: "page \<Rightarrow> page \<times> request option" where
  "submit st =
     (if startDisabled st then (st, None)
      else
        let st = resetUI st;
            st = st\<lparr>startDisabled := True\<rparr>;
            raw = trim (urlValue st)
        in case cleanYouTubeUrl raw of
             Inl e \<Rightarrow> (showToast ''error'' e (st\<lparr>startDisabled := False\<rparr>), None)
           | Inr (url, k) \<Rightarrow>
               let st = st\<lparr>urlValue := url\<rparr>;
                   st = st\<lparr>currentCleanUrl := Some url\<rparr>;
                   st = show_el ProgressSkel (show_el PreviewSkel st)
               in (st, Some (POST_probe (currentCleanUrl st))))"

text \<open>The \<^verbatim>\<open>catch\<close> block around the probe.\<close>

definition probe_failed :: "string \<Rightarrow> page \<Rightarrow> page" where
  "probe_failed msg st = (showToast ''error'' msg (hide PreviewSkel st))\<lparr>startDisabled := False\<rparr>"

definition no_meta :: meta where
  "no_meta = \<lparr>title = None, thumbnail = None, uploader = None, channel_avatar = None,
              subscribers = None\<rparr>"

definition submit_probed :: "probe_reply outcome \<Rightarrow> page \<Rightarrow> page \<times> request option" where
  "submit_probed r st =
     (case r of
        Failed msg \<Rightarrow> (probe_failed msg st, None)
      | Reply probe \<Rightarrow>
          if \<not> probe_ok probe
          then (probe_failed (or_else (probe_error probe) ''Probe failed'') st, None)
          else
            let m = (case probe_meta probe of None \<Rightarrow> no_meta | Some m \<Rightarrow> m);
                st = loader_reset st;
                st = (if truthy (thumbnail m) then (loader_add st)\<lparr>thumbSrc := thumbnail m\<rparr>
                      else st\<lparr>thumbSrc := None\<rparr>);
                name = or_else (uploader m) ''Unknown'';
                st = (if truthy (channel_avatar m)
                      then st\<lparr>avatarSrc := Some (Remote (the (channel_avatar m)))\<rparr>
                      else st\<lparr>avatarSrc := Some (Generated name)\<rparr>);
                st = set_text TitleEl (or_else (title m) ''(Untitled)'') st;
                st = set_text ChannelName name st;
                st = set_text ChannelSubs
                       (case subscribers m of None \<Rightarrow> em_dash @ '' subscribers''
                        | Some n \<Rightarrow> formatSubs n) st;
                st = loader_arm st
            in (st, Some (POST_start (currentCleanUrl st))))"

text \<open>The \<^verbatim>\<open>catch\<close> and \<^verbatim>\<open>finally\<close> blocks around the start request.\<close>

definition start_failed :: "string \<Rightarrow> page \<Rightarrow> page" where
  "start_failed msg st = (showToast ''error'' msg (hide ProgressSkel st))\<lparr>startDisabled := False\<rparr>"

definition submit_started :: "start_reply outcome \<Rightarrow> page \<Rightarrow> page" where
  "submit_started r st =
     (case r of
        Failed msg \<Rightarrow> start_failed msg st
      | Reply start \<Rightarrow>
          if \<not> start_ok start
          then start_failed (or_else (start_error start) ''Failed to start download'') st
          else
            let st = st\<lparr>currentJobId := job_id start\<rparr>;
                st = show_el ProgressBlock (hide ProgressSkel st);
                st = startBarSkeleton st;
                st = set_text ExpiresAt em_dash (hide ProgADWrap (show_el ProgADSkel st));
                (t, st) = setInterval Poll 900 st;
                st = st\<lparr>pollTimer := Some t\<rparr>;
                st = showToast ''info'' ''Downloading started.'' st
            in st\<lparr>startDisabled := False\<rparr>)"

subsection \<open>Images and timers\<close>

text \<open>
  The \<^verbatim>\<open>onload\<close> and \<^verbatim>\<open>onerror\<close> handlers of the thumbnail, and the \<^verbatim>\<open>onerror\<close>
  handler of the avatar with the uploader's name it has captured.
\<close>

definition thumb_settled :: "page \<Rightarrow> page" where
  "thumb_settled st = loader_mark st"

definition avatar_failed :: "string \<Rightarrow> page \<Rightarrow> page" where
  "avatar_failed name st = st\<lparr>avatarSrc := Some (Generated name)\<rparr>"

definition run :: "callback \<Rightarrow> page \<Rightarrow> page \<times> request option" where
  "run cb st = (case cb of Poll \<Rightarrow> poll st | Reveal \<Rightarrow> (reveal st, None))"

text \<open>
  The browser fires the timer \<open>t\<close>: a timeout runs once and leaves the table, an
  interval stays. A handle that is not running fires nothing.
\<close>

definition fire :: "nat \<Rightarrow> page \<Rightarrow> page \<times> request option" where
  "fire t st =
     (case timers st t of
        None \<Rightarrow> (st, None)
      | Some (Interval ms cb) \<Rightarrow> run cb st
      | Some (Timeout ms cb) \<Rightarrow> run cb (st\<lparr>timers := (timers st)(t := None)\<rparr>))"

text \<open>The page before the script has run: no job, no timer, nothing hidden or written.\<close>

definition blank :: page where
  "blank =
     \<lparr>currentJobId = None, currentCleanUrl = None, pollTimer = None, timers = Map.empty,
      nextTimer = 1, loader_need = 0, loader_done = 0, loader_armed = False,
      loader_timeoutId = None, hidden = (\<lambda>_. False), textContent = (\<lambda>_. []),
      barWidth = [], barSkel = False, thumbSrc = None, avatarSrc = None,
      downloadHref = None, startDisabled = False, urlValue = [], toasts = []\<rparr>"

text \<open>The function \<^verbatim>\<open>init\<close> on the page as it is loaded.\<close>

definition init :: page where
  "init = resetUI blank"

section \<open>Sample inputs\<close>


text \<open>A progress payload that carries a status and a percentage and nothing else.\<close>

definition payload :: "string \<Rightarrow> real \<Rightarrow> progress" where
  "payload s p =
     \<lparr>ok = True, status = Some s, progress = Some p, downloaded = None, total = None,
      speed = None, eta = None, started_at_ist = None, expires_at_ist = None,
      filename = None, download_url = None, error = None\<rparr>"

text \<open>A probe answer without metadata, and a start answer that names the job.\<close>

definition probed :: probe_reply where
  "probed = \<lparr>probe_ok = True, probe_meta = None, probe_error = None\<rparr>"

definition started :: "string \<Rightarrow> start_reply" where
  "started j = \<lparr>start_ok = True, job_id = Some j, start_error = None\<rparr>"

text \<open>
  The user types a URL and submits the form; the probe and the start request both
  succeed, and the backend names the job \<open>j\<close>.
\<close>

definition new_job :: "string \<Rightarrow> string \<Rightarrow> page \<Rightarrow> page" where
  "new_job url j st =
     submit_started (Reply (started j))
       (fst (submit_probed (Reply probed) (fst (submit (st\<lparr>urlValue := url\<rparr>)))))"

text \<open>
  A first job \<open>A\<close> on the freshly loaded page; the page right after the form is
  submitted again while \<open>A\<close> is polled; and the page once that second submission has
  started the job \<open>B\<close>.
\<close>

definition job_A :: page where
  "job_A = new_job ''https://youtu.be/aaa'' ''A'' init"

definition resubmitted :: page where
  "resubmitted = fst (submit (job_A\<lparr>urlValue := ''https://youtu.be/bbb''\<rparr>))"

definition job_B :: page where
  "job_B = new_job ''https://youtu.be/bbb'' ''B'' job_A"

section \<open>Facts about the model\<close>

lemmas page_ops = show_el_def hide_def set_text_def showToast_def startBarSkeleton_def
  stopBarSkeleton_def setInterval_def setTimeout_def clearTimer_def clearInterval_def
  clearTimeout_def reveal_def

subsection \<open>Numbers\<close>


lemma Number_toString_nat: "n < 10 ^ 21 \<Longrightarrow> Number_toString (real n) = digits n"
proof -
  assume n: "n < 10 ^ 21"
  then have "real n < 10 ^ 21"
    by (metis of_nat_less_iff of_nat_numeral of_nat_power)
  moreover have "\<not> (0 < real n \<and> real n < 1 / 10 ^ 6)"
    by (cases n) auto
  ultimately show ?thesis
    by (auto simp: Number_toString_def Let_def)
qed

lemma toFixed_0_round:
  assumes "real k - 1 / 2 \<le> x" "x < real k + 1 / 2" "0 \<le> x" "x < 10 ^ 21"
  shows "toFixed 0 x = digits k"
proof -
  have "\<lfloor>x + 1 / 2\<rfloor> = int k"
    using assms(1,2) by (intro floor_unique) simp_all
  then have "nat \<lfloor>x * 10 ^ 0 + 1 / 2\<rfloor> = k"
    by simp
  then show ?thesis
    using assms(3,4) by (simp add: toFixed_def toFixed_abs_def Let_def)
qed

lemma bar_written:
  "barWidth (updateProgress d st) = Number_toString (pct d) @ ''%''"
  "textContent (updateProgress d st) Bar = toFixed 0 (pct d) @ ''%''"
  by (simp_all add: updateProgress_def set_text_def Let_def)

lemma digits_small: "digits 0 = ''0''" "digits 99 = ''99''" "digits 100 = ''100''"
  by (simp_all add: digits.simps)

lemma digits_times_10: "0 < n \<Longrightarrow> digits (10 * n) = digits n @ ''0''"
  by (subst digits.simps) simp

lemma digits_nonempty: "digits n \<noteq> []"
  by (subst digits.simps) simp

lemma toFixed_1_nat:
  assumes "0 < n" "n < 1000"
  shows "toFixed (Suc 0) (real n) = digits n @ ''.0''"
proof -
  have fl: "nat \<lfloor>real n * 10 ^ Suc 0 + 1 / 2\<rfloor> = 10 * n"
    by simp linarith
  obtain c cs where d: "digits n = c # cs"
    using digits_nonempty [of n] by (cases "digits n") auto
  have small: "\<not> real n \<ge> 10 ^ 21" "\<not> real n < 0"
    using assms by simp_all
  have "toFixed_abs (Suc 0) (real n) = digits n @ ''.0''"
    unfolding toFixed_abs_def Let_def fl digits_times_10 [OF assms(1)] d
    using small by simp
  then show ?thesis
    using small by (simp add: toFixed_def)
qed

subsection \<open>Strings of id characters\<close>

lemma id_char_plain:
  assumes "id_char c"
  shows "c \<noteq> CHR ''/''" "c \<noteq> CHR ''?''" "c \<noteq> CHR ''#''" "c \<noteq> CHR ''&''" "c \<noteq> CHR ''=''"
    "c \<noteq> CHR ''+''" "c \<noteq> CHR ''%''" "c \<noteq> back_slash" "\<not> c0_or_space c" "\<not> tab_or_newline c"
  using assms
  by (auto simp: id_char_def alpha_def digit_def lower_letters_def upper_letters_def
      back_slash_def c0_or_space_def tab_or_newline_def)

lemma split_no_sep: "c \<notin> set s \<Longrightarrow> split c s = [s]"
  by (induction s) auto

lemma percent_decode_plain: "CHR ''%'' \<notin> set s \<Longrightarrow> percent_decode s = s"
  by (induction s rule: percent_decode.induct) auto

lemma strip_right: "s \<noteq> [] \<Longrightarrow> \<not> P (last s) \<Longrightarrow> rev (dropWhile P (rev s)) = s"
  by (cases s rule: rev_cases) auto

lemma tab_or_newline_c0: "tab_or_newline c \<Longrightarrow> c0_or_space c"
  by (auto simp: tab_or_newline_def c0_or_space_def)

lemma strip_plain:
  assumes "s \<noteq> []" "\<forall>c\<in>set s. \<not> c0_or_space c"
  shows "filter (\<lambda>c. \<not> tab_or_newline c)
           (rev (dropWhile c0_or_space (rev (dropWhile c0_or_space s)))) = s"
proof -
  have "dropWhile c0_or_space s = s"
    using assms by (simp add: dropWhile_eq_self_iff)
  moreover have "rev (dropWhile c0_or_space (rev s)) = s"
    using assms by (intro strip_right) auto
  moreover have "filter (\<lambda>c. \<not> tab_or_newline c) s = s"
    using assms(2) tab_or_newline_c0 by (auto simp: filter_id_conv)
  ultimately show ?thesis by simp
qed

lemma id_plain:
  assumes "list_all id_char vid"
  shows "\<forall>c\<in>set vid. c \<noteq> CHR ''/''" "\<forall>c\<in>set vid. c \<noteq> CHR ''?''" "\<forall>c\<in>set vid. c \<noteq> CHR ''#''"
   "\<forall>c\<in>set vid. c \<noteq> CHR ''&''" "\<forall>c\<in>set vid. c \<noteq> CHR ''=''" "\<forall>c\<in>set vid. c \<noteq> CHR ''+''"
   "\<forall>c\<in>set vid. c \<noteq> CHR ''%''" "\<forall>c\<in>set vid. c \<noteq> back_slash" "\<forall>c\<in>set vid. \<not> c0_or_space c"
  using assms id_char_plain by (auto simp: list_all_iff)

lemma id_pass:
  assumes "list_all id_char vid"
  shows "takeWhile (\<lambda>c. c \<noteq> CHR ''?'' \<and> c \<noteq> CHR ''#'') vid = vid"
    "takeWhile (\<lambda>c. c \<noteq> CHR ''#'') vid = vid"
    "takeWhile (\<lambda>c. c \<noteq> CHR ''='') vid = vid"
    "dropWhile (\<lambda>c. c \<noteq> CHR ''?'') vid = []"
    "map (\<lambda>c. if c = back_slash then CHR ''/'' else c) vid = vid"
    "map (\<lambda>c. if c = CHR ''+'' then CHR '' '' else c) vid = vid"
    "split CHR ''/'' vid = [vid]"
    "split CHR ''&'' vid = [vid]"
    "percent_decode vid = vid"
proof -
  note p = id_plain [OF assms]
  show "takeWhile (\<lambda>c. c \<noteq> CHR ''?'' \<and> c \<noteq> CHR ''#'') vid = vid"
    using p(2,3) by (simp add: takeWhile_eq_all_conv)
  show "takeWhile (\<lambda>c. c \<noteq> CHR ''#'') vid = vid"
    using p(3) by (simp add: takeWhile_eq_all_conv)
  show "takeWhile (\<lambda>c. c \<noteq> CHR ''='') vid = vid"
    using p(5) by (simp add: takeWhile_eq_all_conv)
  show "dropWhile (\<lambda>c. c \<noteq> CHR ''?'') vid = []"
    using p(2) by (simp add: dropWhile_eq_Nil_conv)
  show "map (\<lambda>c. if c = back_slash then CHR ''/'' else c) vid = vid"
    using p(8) by (intro map_idI) simp
  show "map (\<lambda>c. if c = CHR ''+'' then CHR '' '' else c) vid = vid"
    using p(6) by (intro map_idI) simp
  show "split CHR ''/'' vid = [vid]"
    using p(1) by (intro split_no_sep) blast
  show "split CHR ''&'' vid = [vid]"
    using p(4) by (intro split_no_sep) blast
  show "percent_decode vid = vid"
    using p(7) by (intro percent_decode_plain) blast
qed

lemma id_no_slash:
  assumes "list_all id_char vid"
  shows "dropWhile (\<lambda>c. c = CHR ''/'') vid = vid"
proof (cases vid)
  case Nil
  then show ?thesis by simp
next
  case (Cons c cs)
  with id_plain(1) [OF assms] show ?thesis by simp
qed

subsection \<open>The parser on the canonical forms\<close>

lemmas special_defs = parse_special_def back_slash_def host_port_def forbidden_host_char_def
  c0_or_space_def port_ok_def path_of_def query_of_def toLowerCase_def lower_char_def
  lower_letters_def upper_letters_def

lemmas search_defs = searchParams_get_def searchParams_def parse_pair_def form_decode_def

lemmas clean_defs = cleanYouTubeUrl_def watch_result_def allowed_def at_index_def truthy_def
  startsWith_def toLowerCase_def lower_char_def lower_letters_def upper_letters_def

lemmas url_defs = parse_URL_def c0_or_space_def tab_or_newline_def alpha_def scheme_char_def
  digit_def special_schemes_def special_defs clean_defs search_defs

lemma parse_URL_https:
  assumes "\<forall>c\<in>set rest. \<not> c0_or_space c"
  shows "parse_URL (''https:'' @ rest) = parse_special rest"
proof -
  have "\<forall>c\<in>set (''https:'' @ rest). \<not> c0_or_space c"
    using assms by (simp add: c0_or_space_def)
  then have "filter (\<lambda>c. \<not> tab_or_newline c)
           (rev (dropWhile c0_or_space (rev (dropWhile c0_or_space (''https:'' @ rest)))))
           = ''https:'' @ rest"
    by (intro strip_plain) simp_all
  then show ?thesis
    unfolding parse_URL_def
    by (simp add: alpha_def scheme_char_def lower_letters_def upper_letters_def digit_def
        toLowerCase_def lower_char_def special_schemes_def)
qed

lemma parse_short_link:
  assumes "list_all id_char vid"
  shows "parse_URL (''https://youtu.be/'' @ vid)
         = Some \<lparr>hostname = ''youtu.be'', pathname = ''/'' @ vid, search = []\<rparr>"
proof -
  have "parse_URL (''https:'' @ (''//youtu.be/'' @ vid)) = parse_special (''//youtu.be/'' @ vid)"
    using id_plain(9) [OF assms] by (intro parse_URL_https) (simp add: c0_or_space_def)
  moreover have "parse_special (''//youtu.be/'' @ vid)
      = Some \<lparr>hostname = ''youtu.be'', pathname = ''/'' @ vid, search = []\<rparr>"
    by (simp add: special_defs Let_def id_pass [OF assms, unfolded back_slash_def])
  ultimately show ?thesis by simp
qed

lemma parse_watch:
  assumes "list_all id_char vid"
  shows "parse_URL (''https://www.youtube.com/watch?v='' @ vid)
         = Some \<lparr>hostname = ''www.youtube.com'', pathname = ''/watch'', search = ''v='' @ vid\<rparr>"
proof -
  have "parse_URL (''https:'' @ (''//www.youtube.com/watch?v='' @ vid))
        = parse_special (''//www.youtube.com/watch?v='' @ vid)"
    using id_plain(9) [OF assms] by (intro parse_URL_https) (simp add: c0_or_space_def)
  moreover have "parse_special (''//www.youtube.com/watch?v='' @ vid)
      = Some \<lparr>hostname = ''www.youtube.com'', pathname = ''/watch'', search = ''v='' @ vid\<rparr>"
    by (simp add: special_defs Let_def id_pass [OF assms, unfolded back_slash_def])
  ultimately show ?thesis by simp
qed

lemma parse_shorts:
  assumes "list_all id_char vid"
  shows "parse_URL (''https://www.youtube.com/shorts/'' @ vid)
         = Some \<lparr>hostname = ''www.youtube.com'', pathname = ''/shorts/'' @ vid, search = []\<rparr>"
proof -
  have "parse_URL (''https:'' @ (''//www.youtube.com/shorts/'' @ vid))
        = parse_special (''//www.youtube.com/shorts/'' @ vid)"
    using id_plain(9) [OF assms] by (intro parse_URL_https) (simp add: c0_or_space_def)
  moreover have "parse_special (''//www.youtube.com/shorts/'' @ vid)
      = Some \<lparr>hostname = ''www.youtube.com'', pathname = ''/shorts/'' @ vid, search = []\<rparr>"
    by (simp add: special_defs Let_def id_pass [OF assms, unfolded back_slash_def])
  ultimately show ?thesis by simp
qed

lemma clean_short_link:
  assumes "vid \<noteq> []" "list_all id_char vid"
  shows "cleanYouTubeUrl (''https://youtu.be/'' @ vid)
         = Inr (''https://www.youtube.com/watch?v='' @ vid, Video)"
  unfolding cleanYouTubeUrl_def parse_short_link [OF assms(2)] using assms(1)
  by (simp add: clean_defs Let_def id_pass [OF assms(2)] id_no_slash [OF assms(2)])

lemma clean_watch:
  assumes "vid \<noteq> []" "list_all id_char vid"
  shows "cleanYouTubeUrl (''https://www.youtube.com/watch?v='' @ vid)
         = Inr (''https://www.youtube.com/watch?v='' @ vid, Video)"
  unfolding cleanYouTubeUrl_def parse_watch [OF assms(2)] using assms(1)
  by (simp add: clean_defs search_defs Let_def id_pass [OF assms(2)])

lemma clean_shorts:
  assumes "vid \<noteq> []" "list_all id_char vid"
  shows "cleanYouTubeUrl (''https://www.youtube.com/shorts/'' @ vid)
         = Inr (''https://www.youtube.com/shorts/'' @ vid, Short)"
  unfolding cleanYouTubeUrl_def parse_shorts [OF assms(2)] using assms(1)
  by (simp add: clean_defs Let_def id_pass [OF assms(2)])

text \<open>Every successful result is one of the two prefixes followed by a non-empty id.\<close>

lemma clean_ok_shape:
  assumes "cleanYouTubeUrl x = Inr (u, k)"
  shows "\<exists>v. v \<noteq> [] \<and> u = (if k = Video then ''https://www.youtube.com/watch?v=''
                                else ''https://www.youtube.com/shorts/'') @ v"
  using assms unfolding cleanYouTubeUrl_def watch_result_def Let_def
  by (auto simp: truthy_def split: option.splits if_splits)

subsection \<open>What the page operations leave alone\<close>

lemma timers_frame [simp]:
  "timers (show_el el st) = timers st" "timers (hide el st) = timers st"
  "timers (set_text l s st) = timers st" "timers (showToast ty m st) = timers st"
  "timers (startBarSkeleton st) = timers st" "timers (stopBarSkeleton st) = timers st"
  "timers (updateProgress d st) = timers st"
  "timers (clearInterval h st) = (case h of None \<Rightarrow> timers st | Some t \<Rightarrow> (timers st)(t := None))"
  by (simp_all add: page_ops updateProgress_def Let_def split: option.splits)

lemma pollTimer_frame [simp]:
  "pollTimer (show_el el st) = pollTimer st" "pollTimer (hide el st) = pollTimer st"
  "pollTimer (set_text l s st) = pollTimer st" "pollTimer (showToast ty m st) = pollTimer st"
  "pollTimer (startBarSkeleton st) = pollTimer st" "pollTimer (stopBarSkeleton st) = pollTimer st"
  "pollTimer (updateProgress d st) = pollTimer st"
  "pollTimer (clearInterval h st) = pollTimer st"
  by (simp_all add: page_ops updateProgress_def Let_def split: option.splits)

lemma currentJobId_frame [simp]:
  "currentJobId (show_el el st) = currentJobId st" "currentJobId (hide el st) = currentJobId st"
  "currentJobId (set_text l s st) = currentJobId st"
  "currentJobId (showToast ty m st) = currentJobId st"
  "currentJobId (startBarSkeleton st) = currentJobId st"
  "currentJobId (stopBarSkeleton st) = currentJobId st"
  "currentJobId (updateProgress d st) = currentJobId st"
  "currentJobId (clearInterval h st) = currentJobId st"
  by (simp_all add: page_ops updateProgress_def Let_def split: option.splits)

lemma poll_chips_frame [simp]:
  "timers (poll_chips d st) = timers st" "pollTimer (poll_chips d st) = pollTimer st"
  "currentJobId (poll_chips d st) = currentJobId st"
  by (simp_all add: poll_chips_def Let_def)

lemma poll_status_frame [simp]:
  "pollTimer (poll_status d st) = pollTimer st"
  "currentJobId (poll_status d st) = currentJobId st"
  by (simp_all add: poll_status_def Let_def)

text \<open>
  \<^verbatim>\<open>resetUI\<close> clears the job id and writes the document; it does not touch a timer.
\<close>

lemma resetUI_keeps_timers:
  "timers (resetUI st) = timers st" "pollTimer (resetUI st) = pollTimer st"
  "currentJobId (resetUI st) = None"
  by (simp_all add: resetUI_def page_ops Let_def)

text \<open>
  A poll that ends the job, or that fails, clears the timer whose handle is in
  \<^verbatim>\<open>pollTimer\<close>; any other answer leaves the timers as they are.
\<close>

lemma poll_settled_clears_recorded_timer:
  assumes "pollTimer st = Some t"
    and "case r of Failed msg \<Rightarrow> True
         | Reply d \<Rightarrow> \<not> ok d \<or> status d \<in> Some ` {''finished'', ''expired'', ''cancelled'', ''error''}"
  shows "timers (poll_settled r st) t = None"
  using assms
  by (auto simp: poll_settled_def poll_failed_def poll_status_def Let_def split: outcome.splits)

lemma poll_settled_keeps_timers:
  assumes "ok d"
    and "status d \<notin> Some ` {''finished'', ''expired'', ''cancelled'', ''error''}"
  shows "timers (poll_settled (Reply d) st) = timers st"
  using assms by (simp add: poll_settled_def poll_status_def)

lemma poll_settled_keeps_job:
  "currentJobId (poll_settled r st) = currentJobId st"
  by (simp add: poll_settled_def poll_failed_def split: outcome.splits)

subsection \<open>The sample jobs\<close>

lemma clean_samples:
  "cleanYouTubeUrl ''https://youtu.be/aaa'' = Inr (''https://www.youtube.com/watch?v=aaa'', Video)"
  "cleanYouTubeUrl ''https://youtu.be/bbb'' = Inr (''https://www.youtube.com/watch?v=bbb'', Video)"
  by (simp_all add: url_defs Let_def)

lemma trim_samples:
  "trim ''https://youtu.be/aaa'' = ''https://youtu.be/aaa''"
  "trim ''https://youtu.be/bbb'' = ''https://youtu.be/bbb''"
  by (simp_all add: trim_def white_space_def)

lemmas flow_defs = new_job_def submit_def submit_probed_def submit_started_def probed_def
  started_def resetUI_def loader_reset_def loader_arm_def loader_add_def no_meta_def
  init_def blank_def or_else_def truthy_def clean_samples trim_samples

lemma job_A_facts:
  "currentJobId job_A = Some ''A''" "pollTimer job_A = Some 2"
  "timers job_A 2 = Some (Interval 900 Poll)"
  by (simp_all add: job_A_def flow_defs page_ops Let_def)

lemma resubmitted_facts:
  "currentJobId resubmitted = None" "pollTimer resubmitted = Some 2"
  "timers resubmitted 2 = Some (Interval 900 Poll)"
  "textContent resubmitted Bar = ''0%''"
  by (simp_all add: resubmitted_def job_A_def flow_defs page_ops Let_def)

lemma job_B_facts:
  "currentJobId job_B = Some ''B''" "pollTimer job_B = Some 4"
  "timers job_B 2 = Some (Interval 900 Poll)" "timers job_B 4 = Some (Interval 900 Poll)"
  by (simp_all add: job_B_def job_A_def flow_defs page_ops Let_def)

lemma bar_40: "textContent (updateProgress (payload ''downloading'' 40) st) Bar = ''40%''"
  by (simp add: updateProgress_def set_text_def Let_def pct_def raw_pct_def payload_def
      or_else_def toFixed_def toFixed_abs_def digits.simps)

lemma late_answer_applied:
  "textContent (poll_settled (Reply (payload ''downloading'' 40)) st) Bar = ''40%''"
  by (simp add: poll_settled_def poll_status_def bar_40) (simp add: payload_def)

section \<open>The URL normalizer: claims\<close>

text \<open>
  C7, as stated, fails for an id with a character that the URL syntax reads: the short
  link of \<open>a&b\<close> is normalized to the watch URL of \<open>a&b\<close>, the watch URL of \<open>a&b\<close> to
  the watch URL of \<open>a\<close>.
\<close>

theorem short_link_ampersand_id:
  "cleanYouTubeUrl (''https://youtu.be/'' @ ''a&b'')
     = Inr (''https://www.youtube.com/watch?v='' @ ''a&b'', Video)
   \<and> cleanYouTubeUrl (''https://www.youtube.com/watch?v='' @ ''a&b'')
     = Inr (''https://www.youtube.com/watch?v='' @ ''a'', Video)"
  by (simp add: url_defs Let_def)

text \<open>
  C7, amended. For every non-empty video id made of letters, digits, hyphens and
  underscores, the short link \<^verbatim>\<open>https://youtu.be/<id>\<close> and the watch URL
  \<^verbatim>\<open>https://www.youtube.com/watch?v=<id>\<close> are both normalized to that watch URL,
  with the variant Video.
\<close>

theorem short_link_same_as_watch:
  assumes "vid \<noteq> []" and "list_all id_char vid"
  shows "cleanYouTubeUrl (''https://youtu.be/'' @ vid)
           = Inr (''https://www.youtube.com/watch?v='' @ vid, Video)
       \<and> cleanYouTubeUrl (''https://www.youtube.com/watch?v='' @ vid)
           = Inr (''https://www.youtube.com/watch?v='' @ vid, Video)"
  using clean_short_link [OF assms] clean_watch [OF assms] by (rule conjI)

theorem short_link_same_as_watch_witness:
  "''abc123'' \<noteq> [] \<and> list_all id_char ''abc123''
   \<and> cleanYouTubeUrl ''https://youtu.be/abc123''
       = Inr (''https://www.youtube.com/watch?v=abc123'', Video)
   \<and> cleanYouTubeUrl ''https://www.youtube.com/watch?v=abc123''
       = Inr (''https://www.youtube.com/watch?v=abc123'', Video)"
proof -
  have a: "list_all id_char ''abc123''"
    by (simp add: id_char_def alpha_def digit_def lower_letters_def upper_letters_def)
  have b: "''abc123'' \<noteq> []" by simp
  from short_link_same_as_watch [OF b a] a show ?thesis by simp
qed

text \<open>
  C8, as stated, fails: the input \<^verbatim>\<open>https://youtu.be/x&t=5\<close> is normalized to a URL
  that is normalized to a different one.
\<close>

theorem renormalize_differs:
  "cleanYouTubeUrl ''https://youtu.be/x&t=5''
     = Inr (''https://www.youtube.com/watch?v=x&t=5'', Video)
   \<and> cleanYouTubeUrl ''https://www.youtube.com/watch?v=x&t=5''
     = Inr (''https://www.youtube.com/watch?v=x'', Video)"
  by (simp add: url_defs Let_def)

text \<open>
  C8, amended. When an input is normalized with success and the id in the canonical
  URL is made of letters, digits, hyphens and underscores, normalizing the canonical
  URL succeeds and returns the same URL and the same variant.
\<close>

theorem renormalize_same:
  assumes "cleanYouTubeUrl x = Inr (u, k)"
    and "u = (if k = Video then ''https://www.youtube.com/watch?v=''
              else ''https://www.youtube.com/shorts/'') @ vid"
    and "list_all id_char vid"
  shows "cleanYouTubeUrl u = Inr (u, k)"
proof -
  from clean_ok_shape [OF assms(1)] obtain v where v: "v \<noteq> []"
    "u = (if k = Video then ''https://www.youtube.com/watch?v=''
          else ''https://www.youtube.com/shorts/'') @ v"
    by blast
  from v(2) assms(2) have "v = vid"
    by (simp split: if_splits)
  with v(1) have ne: "vid \<noteq> []" by simp
  show ?thesis
  proof (cases k)
    case Video
    with assms(2) clean_watch [OF ne assms(3)] show ?thesis by simp
  next
    case Short
    with assms(2) clean_shorts [OF ne assms(3)] show ?thesis by simp
  qed
qed

theorem renormalize_same_witness:
  "cleanYouTubeUrl ''https://youtu.be/abc123''
     = Inr (''https://www.youtube.com/watch?v=abc123'', Video)
   \<and> list_all id_char ''abc123''
   \<and> cleanYouTubeUrl ''https://www.youtube.com/watch?v=abc123''
     = Inr (''https://www.youtube.com/watch?v=abc123'', Video)
   \<and> cleanYouTubeUrl ''https://www.youtube.com/shorts/xyz789?x=1''
     = Inr (''https://www.youtube.com/shorts/xyz789'', Short)
   \<and> list_all id_char ''xyz789''
   \<and> cleanYouTubeUrl ''https://www.youtube.com/shorts/xyz789''
     = Inr (''https://www.youtube.com/shorts/xyz789'', Short)"
proof -
  have a: "cleanYouTubeUrl ''https://youtu.be/abc123''
     = Inr (''https://www.youtube.com/watch?v=abc123'', Video)"
    by (simp add: url_defs Let_def)
  have b: "list_all id_char ''abc123''" "list_all id_char ''xyz789''"
    by (simp_all add: id_char_def alpha_def digit_def lower_letters_def upper_letters_def)
  have c: "cleanYouTubeUrl ''https://www.youtube.com/shorts/xyz789?x=1''
     = Inr (''https://www.youtube.com/shorts/xyz789'', Short)"
    by (simp add: url_defs Let_def)
  from renormalize_same [OF a _ b(1)] renormalize_same [OF c _ b(2)] a b c
  show ?thesis by simp
qed

section \<open>The preview loader: claims\<close>

text \<open>
  C3. When \<^verbatim>\<open>need\<close> is zero as \<^verbatim>\<open>arm\<close> is called, the preview is shown and its
  skeleton hidden at once. In every case \<^verbatim>\<open>arm\<close> starts a timeout of 1000 ms and keeps
  its handle; when that timeout fires, whatever the counters are by then, the preview
  is shown and its skeleton hidden.
\<close>

theorem arm_reveals:
  "(loader_need st = 0 \<longrightarrow>
      \<not> hidden (loader_arm st) Preview \<and> hidden (loader_arm st) PreviewSkel)
   \<and> loader_timeoutId (loader_arm st) = Some (nextTimer st)
   \<and> timers (loader_arm st) (nextTimer st) = Some (Timeout 1000 Reveal)
   \<and> (\<forall>s. timers s (nextTimer st) = Some (Timeout 1000 Reveal) \<longrightarrow>
          \<not> hidden (fst (fire (nextTimer st) s)) Preview
        \<and> hidden (fst (fire (nextTimer st) s)) PreviewSkel)"
  by (simp add: loader_arm_def fire_def run_def page_ops Let_def)

theorem arm_reveals_witness:
  "loader_need init = 0
   \<and> \<not> hidden (loader_arm init) Preview \<and> hidden (loader_arm init) PreviewSkel
   \<and> loader_need (loader_add init) = 1 \<and> loader_done (loader_add init) = 0
   \<and> hidden (loader_arm (loader_add init)) Preview
   \<and> timers (loader_arm (loader_add init)) (nextTimer (loader_add init)) = Some (Timeout 1000 Reveal)
   \<and> \<not> hidden (fst (fire (nextTimer (loader_add init)) (loader_arm (loader_add init)))) Preview
   \<and> hidden (fst (fire (nextTimer (loader_add init)) (loader_arm (loader_add init)))) PreviewSkel"
  using arm_reveals [of init] arm_reveals [of "loader_add init"]
  by (simp add: init_def blank_def resetUI_def loader_add_def loader_arm_def page_ops Let_def)

section \<open>The job controller: claims\<close>

text \<open>
  C1 does not hold of the code. Job \<open>A\<close> is polled by the interval with the handle 2.
  When the form is submitted again, \<^verbatim>\<open>resetUI\<close> clears the job id and the interval
  keeps running; an answer to a poll that was sent for \<open>A\<close> is written to the page that
  \<^verbatim>\<open>resetUI\<close> has just cleared, and to the page of job \<open>B\<close> after that, where the
  interval of \<open>A\<close> is still running.
\<close>

theorem stale_timer_survives:
  "currentJobId job_A = Some ''A'' \<and> pollTimer job_A = Some 2
   \<and> timers job_A 2 = Some (Interval 900 Poll)
   \<and> poll job_A = (job_A, Some (GET_progress ''A''))
   \<and> currentJobId resubmitted = None
   \<and> timers resubmitted 2 = Some (Interval 900 Poll)
   \<and> textContent resubmitted Bar = ''0%''
   \<and> textContent (poll_settled (Reply (payload ''downloading'' 40)) resubmitted) Bar = ''40%''
   \<and> currentJobId job_B = Some ''B''
   \<and> timers job_B 2 = Some (Interval 900 Poll)
   \<and> textContent (poll_settled (Reply (payload ''downloading'' 40)) job_B) Bar = ''40%''"
proof -
  have "poll job_A = (job_A, Some (GET_progress ''A''))"
    by (simp add: poll_def job_A_facts truthy_def)
  then show ?thesis
    by (simp add: job_A_facts resubmitted_facts job_B_facts late_answer_applied)
qed

text \<open>
  C4 does not hold of the code, by the defect of C1. On the page of job \<open>B\<close> the
  interval 2 that job \<open>A\<close> has left behind fires \<^verbatim>\<open>poll\<close> as well. When the answer is
  \<^verbatim>\<open>finished\<close>, or when the request fails, the handle in \<^verbatim>\<open>pollTimer\<close> is cleared,
  which is 4: the interval 2 that drove the poll keeps running and polls again.
\<close>

theorem leaked_timer_not_cleared:
  "pollTimer job_B = Some 4
   \<and> fire 2 job_B = (job_B, Some (GET_progress ''B''))
   \<and> timers (poll_settled (Reply (payload ''finished'' 100)) job_B) 2 = Some (Interval 900 Poll)
   \<and> timers (poll_settled (Reply (payload ''finished'' 100)) job_B) 4 = None
   \<and> timers (poll_settled (Failed ''Failed to fetch'') job_B) 2 = Some (Interval 900 Poll)
   \<and> snd (fire 2 (poll_settled (Reply (payload ''finished'' 100)) job_B))
       = Some (GET_progress ''B'')"
proof -
  have a: "fire 2 job_B = (job_B, Some (GET_progress ''B''))"
    by (simp add: fire_def run_def poll_def job_B_facts truthy_def)
  have fin: "timers (poll_settled (Reply (payload ''finished'' 100)) job_B)
             = (timers job_B)(4 := None)"
    by (simp add: poll_settled_def poll_status_def Let_def job_B_facts) (simp add: payload_def)
  have fail: "timers (poll_settled (Failed ''Failed to fetch'') job_B) = (timers job_B)(4 := None)"
    by (simp add: poll_settled_def poll_failed_def job_B_facts)
  have b: "snd (fire 2 (poll_settled (Reply (payload ''finished'' 100)) job_B))
           = Some (GET_progress ''B'')"
    by (simp add: fire_def run_def poll_def fin poll_settled_keeps_job job_B_facts truthy_def)
  show ?thesis
    using a b by (simp add: fin fail job_B_facts)
qed

text \<open>
  C9. A click on the cancel button changes nothing before its request is answered, and
  the answer, whatever it is, adds one toast to the page and changes nothing else: the
  job id, the retained URL, the handle of the polling timer, the running timers and
  the regions and texts of the document are as before.
\<close>

theorem cancel_only_notifies:
  "fst (cancel_click st) = st
   \<and> (\<exists>type msg. cancel_settled r st = st\<lparr>toasts := toasts st @ [(type, msg)]\<rparr>)
   \<and> currentJobId (cancel_settled r st) = currentJobId st
   \<and> currentCleanUrl (cancel_settled r st) = currentCleanUrl st
   \<and> pollTimer (cancel_settled r st) = pollTimer st
   \<and> timers (cancel_settled r st) = timers st
   \<and> hidden (cancel_settled r st) = hidden st
   \<and> textContent (cancel_settled r st) = textContent st"
  by (auto simp: cancel_click_def cancel_settled_def showToast_def split: outcome.splits)

section \<open>The progress mapper: claims\<close>



text \<open>
  C5. A percentage of the backend that lies outside of the range from 0 to 100 is mapped
  into that range, and the mapped value is what is written to the bar: a value above
  100 gives 100 and the bar 100%, a negative value gives 0 and the bar 0% (99 and 99%
  while the status is \<^verbatim>\<open>processing\<close>).
\<close>

theorem pct_clamped:
  "progress d = Some p \<Longrightarrow> p < 0 \<or> 100 < p \<Longrightarrow>
     0 \<le> pct d \<and> pct d \<le> 100
   \<and> (100 < p \<longrightarrow> pct d = 100 \<and> barWidth (updateProgress d st) = ''100%''
         \<and> textContent (updateProgress d st) Bar = ''100%'')
   \<and> (p < 0 \<longrightarrow> pct d = (if or_else (status d) [] = ''processing'' then 99 else 0)
         \<and> barWidth (updateProgress d st)
             = (if or_else (status d) [] = ''processing'' then ''99%'' else ''0%'')
         \<and> textContent (updateProgress d st) Bar
             = (if or_else (status d) [] = ''processing'' then ''99%'' else ''0%''))"
proof -
  assume p: "progress d = Some p" "p < 0 \<or> 100 < p"
  have n: "Number_toString 0 = ''0''" "Number_toString 99 = ''99''" "Number_toString 100 = ''100''"
    using Number_toString_nat [of 0] Number_toString_nat [of 99] Number_toString_nat [of 100]
    by (simp_all add: digits_small)
  have t: "toFixed 0 0 = ''0''" "toFixed 0 99 = ''99''" "toFixed 0 100 = ''100''"
    using toFixed_0_round [of 0 0] toFixed_0_round [of 99 99] toFixed_0_round [of 100 100]
    by (simp_all add: digits_small)
  have v: "pct d = (if 100 < p then 100
                    else if or_else (status d) [] = ''processing'' then 99 else 0)"
    using p by (auto simp: pct_def raw_pct_def Let_def)
  show ?thesis
    using p by (auto simp: bar_written v n t)
qed

theorem pct_clamped_witness:
  "progress (payload ''downloading'' (- 5)) = Some (- 5) \<and> ((- 5 :: real) < 0 \<or> (100 :: real) < - 5)
   \<and> pct (payload ''downloading'' (- 5)) = 0
   \<and> barWidth (updateProgress (payload ''downloading'' (- 5)) blank) = ''0%''
   \<and> textContent (updateProgress (payload ''downloading'' (- 5)) blank) Bar = ''0%''
   \<and> progress (payload ''downloading'' 250) = Some 250 \<and> ((250 :: real) < 0 \<or> (100 :: real) < 250)
   \<and> pct (payload ''downloading'' 250) = 100
   \<and> barWidth (updateProgress (payload ''downloading'' 250) blank) = ''100%''
   \<and> textContent (updateProgress (payload ''downloading'' 250) blank) Bar = ''100%''"
proof -
  have n: "Number_toString 0 = ''0''" "Number_toString 100 = ''100''"
    by (simp_all add: Number_toString_def digits.simps Let_def)
  have t: "toFixed 0 0 = ''0''" "toFixed 0 100 = ''100''"
    by (simp_all add: toFixed_def toFixed_abs_def digits.simps)
  show ?thesis
    using pct_clamped [of "payload ''downloading'' (- 5)" "- 5" blank]
      pct_clamped [of "payload ''downloading'' 250" 250 blank]
    by (simp add: payload_def or_else_def n t)
qed




section \<open>The subscriber count: claims\<close>

text \<open>
  C10. A whole number of subscribers from 1 to 999 is written as its digits, the letter
  \<^verbatim>\<open>B\<close> of the first unit, which is the letter of the billions as well, and
  \<^verbatim>\<open> subscribers\<close>.
\<close>

theorem formatSubs_small:
  "1 \<le> n \<Longrightarrow> n < 1000 \<Longrightarrow> formatSubs (real n) = digits n @ ''B subscribers''"
  by (simp add: formatSubs_def units_def toFixed_1_nat strip_point_zero_def)

theorem formatSubs_small_witness:
  "(1::nat) \<le> 5 \<and> (5::nat) < 1000 \<and> formatSubs 5 = ''5B subscribers''"
  using formatSubs_small [of 5] by (simp add: digits.simps)

end
